theory Spec2Isabelle
  imports Main "HOL-Library.AList"
begin

section \<open>Python values, errors and built-ins\<close>

text \<open>
  The program is \<^verbatim>\<open>make_building_relations.py\<close> (Python 2.7). Every exception the
  code can raise is a value of \<open>error\<close>; a function that can raise returns
  \<open>error + 'a\<close>, with \<open>Inl\<close> for the exception.
\<close>

datatype error = KeyError | ValueError | AttributeError | UnboundLocalError

definition rbind :: "error + 'a \<Rightarrow> ('a \<Rightarrow> error + 'b) \<Rightarrow> error + 'b" where
  "rbind m f = (case m of Inl e \<Rightarrow> Inl e | Inr x \<Rightarrow> f x)"

text \<open>A \<^verbatim>\<open>for x in xs:\<close> loop whose body updates a state and can raise.\<close>

fun for_each :: "('a \<Rightarrow> 's \<Rightarrow> error + 's) \<Rightarrow> 'a list \<Rightarrow> 's \<Rightarrow> error + 's" where
  "for_each f [] s = Inr s"
| "for_each f (x # xs) s = rbind (f x s) (for_each f xs)"

text \<open>A loop that collects one result per item (\<^verbatim>\<open>points.append(...)\<close>).\<close>

fun collect :: "('a \<Rightarrow> error + 'b) \<Rightarrow> 'a list \<Rightarrow> error + 'b list" where
  "collect f [] = Inr []"
| "collect f (x # xs) = rbind (f x) (\<lambda>y. rbind (collect f xs) (\<lambda>ys. Inr (y # ys)))"

text \<open>
  An OSM id is a \<^verbatim>\<open>str\<close> when it comes from the parser and from \<^verbatim>\<open>Nodes.add_new\<close>,
  and an \<^verbatim>\<open>int\<close> when it comes from \<^verbatim>\<open>Ways.add_new\<close> or \<^verbatim>\<open>Relations.add_new\<close>.
  As dictionary keys a \<^verbatim>\<open>str\<close> and an \<^verbatim>\<open>int\<close> are never equal.
\<close>

datatype pyval = PyStr string | PyInt int

definition is_space :: "char \<Rightarrow> bool" where
  "is_space c = ((of_char c :: nat) \<in> {9, 10, 11, 12, 13, 32})"

definition strip :: "string \<Rightarrow> string" where
  "strip s = rev (dropWhile is_space (rev (dropWhile is_space s)))"

definition digit_of :: "char \<Rightarrow> nat option" where
  "digit_of c = (if 48 \<le> (of_char c :: nat) \<and> (of_char c :: nat) \<le> 57
                 then Some (of_char c - 48) else None)"

fun digits_val :: "nat \<Rightarrow> string \<Rightarrow> nat option" where
  "digits_val acc [] = Some acc"
| "digits_val acc (c # cs) =
     (case digit_of c of None \<Rightarrow> None | Some d \<Rightarrow> digits_val (10 * acc + d) cs)"

text \<open>
  \<^verbatim>\<open>int(s)\<close> for a \<^verbatim>\<open>str\<close>: surrounding white space, an optional sign, then one
  or more decimal digits. \<open>None\<close> is the \<^verbatim>\<open>ValueError\<close>.
\<close>

definition py_int :: "string \<Rightarrow> int option" where
  "py_int s =
     (case strip s of
        [] \<Rightarrow> None
      | c # cs \<Rightarrow>
          if c = CHR ''-'' then (if cs = [] then None else map_option (\<lambda>n. - int n) (digits_val 0 cs))
          else if c = CHR ''+'' then (if cs = [] then None else map_option int (digits_val 0 cs))
          else map_option int (digits_val 0 (c # cs)))"

definition py_int_of :: "pyval \<Rightarrow> int option" where
  "py_int_of x = (case x of PyInt i \<Rightarrow> Some i | PyStr s \<Rightarrow> py_int s)"

fun nat_digits :: "nat \<Rightarrow> string" where
  "nat_digits n =
     (if n < 10 then [char_of (48 + n)] else nat_digits (n div 10) @ [char_of (48 + n mod 10)])"

declare nat_digits.simps [simp del]

text \<open>\<^verbatim>\<open>str(i)\<close> for an \<^verbatim>\<open>int\<close>.\<close>

definition py_str :: "int \<Rightarrow> string" where
  "py_str i = (if i < 0 then CHR ''-'' # nat_digits (nat (- i)) else nat_digits (nat i))"

definition lower_char :: "char \<Rightarrow> char" where
  "lower_char c = (if 65 \<le> (of_char c :: nat) \<and> (of_char c :: nat) \<le> 90
                   then char_of ((of_char c :: nat) + 32) else c)"

text \<open>\<^verbatim>\<open>s.lower()\<close> for a byte string.\<close>

definition lower :: "string \<Rightarrow> string" where
  "lower s = map lower_char s"

section \<open>The geometry library and \<^verbatim>\<open>float\<close>\<close>

text \<open>
  Shapely and Python's \<^verbatim>\<open>float\<close> are not code of the repository. They are a parameter
  of the model: \<open>'f\<close> is the type of floats, a point is \<^verbatim>\<open>(x, y)\<close>, which is
  \<^verbatim>\<open>(lon, lat)\<close>, a polygon has the coordinates of its exterior ring and of its interior
  rings, and the result of \<^verbatim>\<open>cascaded_union\<close> is a \<^verbatim>\<open>Polygon\<close>, a \<^verbatim>\<open>MultiPolygon\<close>
  or something else (an empty collection).
\<close>

type_synonym 'f point = "'f \<times> 'f"

datatype 'f polygon = Polygon (exterior: "'f point list") (interiors: "'f point list list")

datatype 'f geometry = GPolygon "'f polygon" | GMultiPolygon "'f polygon list" | GOther

record 'f prims =
  py_float :: "string \<Rightarrow> 'f option"
  float_str :: "'f \<Rightarrow> string"
  shapely_Polygon :: "'f point list \<Rightarrow> error + 'f polygon"
  cascaded_union :: "'f polygon list \<Rightarrow> error + 'f geometry"
  polygonize :: "'f point list list \<Rightarrow> error + 'f polygon list"

section \<open>Objects and the store\<close>

text \<open>
  Python objects are shared by reference: the same \<^verbatim>\<open>Way\<close> is a value of the
  \<^verbatim>\<open>Ways\<close> dictionary, an item of a \<^verbatim>\<open>bldgs\<close> list and a member of a relation, and
  a tag added through one is seen through the others. So objects live in a store
  (\<open>heap\<close>, a list indexed by reference) and everything else holds references.
  A dictionary is an association list with distinct keys; its order is the iteration
  order, which Python leaves unspecified.
\<close>

type_synonym ref = nat

type_synonym tagdict = "(string \<times> string) list"

datatype obj =
    is_Node: Node (osm_id: pyval) (lat: string) (lon: string) (tags: tagdict)
  | is_Way: Way (osm_id: pyval) (tags: tagdict) (nodes: "ref list")
  | is_Relation: Relation (osm_id: pyval) (tags: tagdict) (members: "(ref \<times> string) list")

definition set_tags :: "tagdict \<Rightarrow> obj \<Rightarrow> obj" where
  "set_tags t x =
     (case x of
        Node i la lo _ \<Rightarrow> Node i la lo t
      | Way i _ ns \<Rightarrow> Way i t ns
      | Relation i _ ms \<Rightarrow> Relation i t ms)"

record 'f state =
  heap :: "obj list"
  nodes_nodes :: "(pyval \<times> ref) list"
  nodes_by_lat_lon :: "('f point \<times> ref) list"
  nodes_lowest_id :: int
  ways_ways :: "(pyval \<times> ref) list"
  ways_lowest_id :: int
  relations_relations :: "(pyval \<times> ref) list"
  relations_lowest_id :: int
  bldgs :: "(string \<times> ref list) list"
  part_level_tags :: "string list"
  bldg_and_part_level_tags :: "string list"
  bldg_id_tag :: string
  primary_osm_element :: "ref option"

text \<open>\<^verbatim>\<open>MakeBuildingRelations.__init__\<close>, with \<^verbatim>\<open>Nodes()\<close>, \<^verbatim>\<open>Ways()\<close>, \<^verbatim>\<open>Relations()\<close>.\<close>

definition init :: "string \<Rightarrow> 'f state" where
  "init tag =
     \<lparr> heap = [], nodes_nodes = [], nodes_by_lat_lon = [], nodes_lowest_id = - 1,
       ways_ways = [], ways_lowest_id = - 1,
       relations_relations = [], relations_lowest_id = - 1,
       bldgs = [], part_level_tags = [''height'', ''type''],
       bldg_and_part_level_tags = [''building''], bldg_id_tag = tag,
       primary_osm_element = None \<rparr>"

definition alloc :: "obj \<Rightarrow> 'f state \<Rightarrow> 'f state \<times> ref" where
  "alloc x s = (s\<lparr>heap := heap s @ [x]\<rparr>, length (heap s))"

subsection \<open>Methods of \<^verbatim>\<open>Node\<close>, \<^verbatim>\<open>Way\<close> and \<^verbatim>\<open>Relation\<close>\<close>

text \<open>\<^verbatim>\<open>x.add_tag(key, value)\<close>: all three classes have it.\<close>

definition add_tag :: "ref \<Rightarrow> string \<Rightarrow> string \<Rightarrow> 'f state \<Rightarrow> 'f state" where
  "add_tag r k v s =
     s\<lparr>heap := (heap s)[r := set_tags (AList.update k v (tags (heap s ! r))) (heap s ! r)]\<rparr>"


definition add_node :: "ref \<Rightarrow> ref \<Rightarrow> 'f state \<Rightarrow> error + 'f state" where
  "add_node w n s =
     (case heap s ! w of
        Way i t ns \<Rightarrow> Inr (s\<lparr>heap := (heap s)[w := Way i t (ns @ [n])]\<rparr>)
      | _ \<Rightarrow> Inl AttributeError)"

definition add_member :: "ref \<Rightarrow> ref \<Rightarrow> string \<Rightarrow> 'f state \<Rightarrow> error + 'f state" where
  "add_member r x role s =
     (case heap s ! r of
        Relation i t ms \<Rightarrow> Inr (s\<lparr>heap := (heap s)[r := Relation i t (ms @ [(x, role)])]\<rparr>)
      | _ \<Rightarrow> Inl AttributeError)"

subsection \<open>The collections \<^verbatim>\<open>Nodes\<close>, \<^verbatim>\<open>Ways\<close> and \<^verbatim>\<open>Relations\<close>\<close>

definition Nodes_add :: "'f prims \<Rightarrow> ref \<Rightarrow> 'f state \<Rightarrow> error + 'f state" where
  "Nodes_add P r s =
     (case heap s ! r of
        Node i la lo _ \<Rightarrow>
          (case py_float P la of
             None \<Rightarrow> Inl ValueError
           | Some y \<Rightarrow>
               (case py_float P lo of
                  None \<Rightarrow> Inl ValueError
                | Some x \<Rightarrow>
                    (case py_int_of i of
                       None \<Rightarrow> Inl ValueError
                     | Some n \<Rightarrow>
                         Inr (s\<lparr>nodes_nodes := AList.update i r (nodes_nodes s),
                                nodes_by_lat_lon := AList.update (y, x) r (nodes_by_lat_lon s),
                                nodes_lowest_id :=
                                  (if n < nodes_lowest_id s then n else nodes_lowest_id s)\<rparr>))))
      | _ \<Rightarrow> Inl AttributeError)"



definition Nodes_getitem :: "'f state \<Rightarrow> pyval \<Rightarrow> error + ref" where
  "Nodes_getitem s k = (case map_of (nodes_nodes s) k of None \<Rightarrow> Inl KeyError | Some r \<Rightarrow> Inr r)"

definition Ways_add :: "ref \<Rightarrow> 'f state \<Rightarrow> error + 'f state" where
  "Ways_add r s =
     (let i = osm_id (heap s ! r) in
      case py_int_of i of
        None \<Rightarrow> Inl ValueError
      | Some n \<Rightarrow>
          Inr (s\<lparr>ways_ways := AList.update i r (ways_ways s),
                 ways_lowest_id := (if n < ways_lowest_id s then n else ways_lowest_id s)\<rparr>))"


definition Ways_getitem :: "'f state \<Rightarrow> pyval \<Rightarrow> error + ref" where
  "Ways_getitem s k = (case map_of (ways_ways s) k of None \<Rightarrow> Inl KeyError | Some r \<Rightarrow> Inr r)"

definition Relations_add :: "ref \<Rightarrow> 'f state \<Rightarrow> error + 'f state" where
  "Relations_add r s =
     (let i = osm_id (heap s ! r) in
      case py_int_of i of
        None \<Rightarrow> Inl ValueError
      | Some n \<Rightarrow>
          Inr (s\<lparr>relations_relations := AList.update i r (relations_relations s),
                 relations_lowest_id :=
                   (if n < relations_lowest_id s then n else relations_lowest_id s)\<rparr>))"


definition Relations_getitem :: "'f state \<Rightarrow> pyval \<Rightarrow> error + ref" where
  "Relations_getitem s k =
     (case map_of (relations_relations s) k of None \<Rightarrow> Inl KeyError | Some r \<Rightarrow> Inr r)"

section \<open>The parser target: \<^verbatim>\<open>start\<close> and \<^verbatim>\<open>end\<close>\<close>

definition attrib_get :: "(string \<times> string) list \<Rightarrow> string \<Rightarrow> error + string" where
  "attrib_get attrib k = (case map_of attrib k of None \<Rightarrow> Inl KeyError | Some v \<Rightarrow> Inr v)"

definition start :: "string \<Rightarrow> (string \<times> string) list \<Rightarrow> 'f state \<Rightarrow> error + 'f state" where
  "start tag attrib s =
     (if tag = ''node'' then
        rbind (attrib_get attrib ''id'') (\<lambda>i.
        rbind (attrib_get attrib ''lat'') (\<lambda>la.
        rbind (attrib_get attrib ''lon'') (\<lambda>lo.
          let (s1, r) = alloc (Node (PyStr i) la lo []) s
          in Inr (s1\<lparr>primary_osm_element := Some r\<rparr>))))
      else if tag = ''way'' then
        rbind (attrib_get attrib ''id'') (\<lambda>i.
          let (s1, r) = alloc (Way (PyStr i) [] []) s
          in Inr (s1\<lparr>primary_osm_element := Some r\<rparr>))
      else if tag = ''relation'' then
        rbind (attrib_get attrib ''id'') (\<lambda>i.
          let (s1, r) = alloc (Relation (PyStr i) [] []) s
          in Inr (s1\<lparr>primary_osm_element := Some r\<rparr>))
      else if tag = ''tag'' then
        (case primary_osm_element s of
           None \<Rightarrow> Inl AttributeError
         | Some p \<Rightarrow>
             rbind (attrib_get attrib ''k'') (\<lambda>k.
             rbind (attrib_get attrib ''v'') (\<lambda>v. Inr (add_tag p k v s))))
      else if tag = ''nd'' then
        (case primary_osm_element s of
           None \<Rightarrow> Inl AttributeError
         | Some p \<Rightarrow>
             (case heap s ! p of
                Way _ _ _ \<Rightarrow>
                  rbind (attrib_get attrib ''ref'') (\<lambda>r.
                  rbind (Nodes_getitem s (PyStr r)) (\<lambda>n. add_node p n s))
              | _ \<Rightarrow> Inl AttributeError))
      else if tag = ''member'' then
        rbind (attrib_get attrib ''type'') (\<lambda>ty.
        rbind (if ty = ''node'' then
                 rbind (attrib_get attrib ''ref'') (\<lambda>r.
                 rbind (Nodes_getitem s (PyStr r)) (\<lambda>e. Inr (Some e)))
               else if ty = ''way'' then
                 rbind (attrib_get attrib ''ref'') (\<lambda>r.
                 rbind (Ways_getitem s (PyStr r)) (\<lambda>e. Inr (Some e)))
               else if ty = ''relation'' then
                 rbind (attrib_get attrib ''ref'') (\<lambda>r.
                 rbind (Relations_getitem s (PyStr r)) (\<lambda>e. Inr (Some e)))
               else Inr None) (\<lambda>element.
          case primary_osm_element s of
            None \<Rightarrow> Inl AttributeError
          | Some p \<Rightarrow>
              (case heap s ! p of
                 Relation _ _ _ \<Rightarrow>
                   (case element of
                      None \<Rightarrow> Inl UnboundLocalError
                    | Some e \<Rightarrow>
                        rbind (attrib_get attrib ''role'') (\<lambda>role. add_member p e role s))
               | _ \<Rightarrow> Inl AttributeError)))
      else Inr s)"

text \<open>\<^verbatim>\<open>self.bldgs.setdefault(key, []).append(x)\<close>\<close>

definition setdefault_append :: "string \<Rightarrow> ref \<Rightarrow> (string \<times> ref list) list \<Rightarrow> (string \<times> ref list) list" where
  "setdefault_append k x d =
     (case map_of d k of
        None \<Rightarrow> AList.update k [x] d
      | Some xs \<Rightarrow> AList.update k (xs @ [x]) d)"

text \<open>\<^verbatim>\<open>MakeBuildingRelations.end\<close> (\<open>end\<close> is a keyword of Isabelle).\<close>

definition end_element :: "'f prims \<Rightarrow> string \<Rightarrow> 'f state \<Rightarrow> error + 'f state" where
  "end_element P tag s =
     rbind (case primary_osm_element s of
              None \<Rightarrow> if tag = ''node'' \<or> tag = ''way'' \<or> tag = ''relation''
                        then Inl AttributeError else Inr s
            | Some p \<Rightarrow>
                if tag = ''node'' then Nodes_add P p s
                else if tag = ''way'' then Ways_add p s
                else if tag = ''relation'' then Relations_add p s
                else Inr s) (\<lambda>s1.
       if tag = ''way'' \<or> tag = ''relation'' then
         (case primary_osm_element s1 of
            None \<Rightarrow> Inl AttributeError
          | Some p \<Rightarrow>
              (case map_of (tags (heap s1 ! p)) (bldg_id_tag s1) of
                 None \<Rightarrow> Inr s1
               | Some v \<Rightarrow> Inr (s1\<lparr>bldgs := setdefault_append v p (bldgs s1)\<rparr>)))
       else Inr s1)"

text \<open>
  The XML parser calls \<^verbatim>\<open>start\<close> at every opening tag and \<^verbatim>\<open>end\<close> at every closing
  tag, in document order.
\<close>

datatype event = Start string "(string \<times> string) list" | End string

fun handle :: "'f prims \<Rightarrow> event \<Rightarrow> 'f state \<Rightarrow> error + 'f state" where
  "handle P (Start tag attrib) s = start tag attrib s"
| "handle P (End tag) s = end_element P tag s"

definition feed :: "'f prims \<Rightarrow> event list \<Rightarrow> 'f state \<Rightarrow> error + 'f state" where
  "feed P events s = for_each (handle P) events s"

section \<open>Between OSM elements and Shapely polygons\<close>

text \<open>\<^verbatim>\<open>(float(node.lon), float(node.lat))\<close>\<close>

definition node_point :: "'f prims \<Rightarrow> 'f state \<Rightarrow> ref \<Rightarrow> error + 'f point" where
  "node_point P s n =
     (case heap s ! n of
        Node _ la lo _ \<Rightarrow>
          (case py_float P lo of
             None \<Rightarrow> Inl ValueError
           | Some x \<Rightarrow>
               (case py_float P la of None \<Rightarrow> Inl ValueError | Some y \<Rightarrow> Inr (x, y)))
      | _ \<Rightarrow> Inl AttributeError)"

definition way_to_polygon :: "'f prims \<Rightarrow> 'f state \<Rightarrow> ref \<Rightarrow> error + 'f polygon" where
  "way_to_polygon P s way =
     (case heap s ! way of
        Way _ _ ns \<Rightarrow> rbind (collect (node_point P s) ns) (shapely_Polygon P)
      | _ \<Rightarrow> Inl AttributeError)"









section \<open>\<^verbatim>\<open>close\<close>: the consolidation\<close>









section \<open>A stand-in for the library, to run the model\<close>

text \<open>
  To evaluate the model on concrete inputs the parameter needs a value. Coordinates
  are integers: \<open>demo_float\<close> reads an integer literal with an optional \<^verbatim>\<open>.0\<close>
  (and refuses every other string), \<open>demo_str\<close> prints \<^verbatim>\<open>5.0\<close> for 5 as
  \<^verbatim>\<open>str\<close> does, \<open>demo_Polygon\<close> closes an open ring and refuses one or two points as
  Shapely does, and \<open>demo_union\<close> is the union of polygons that are all the same
  (that polygon) or pairwise disjoint (a multipolygon of them).
\<close>

definition demo_float :: "string \<Rightarrow> int option" where
  "demo_float s =
     (let t = strip s in
      if 2 \<le> length t \<and> drop (length t - 2) t = ''.0'' then py_int (take (length t - 2) t)
      else py_int t)"

definition demo_str :: "int \<Rightarrow> string" where
  "demo_str x = py_str x @ ''.0''"

definition demo_Polygon :: "int point list \<Rightarrow> error + int polygon" where
  "demo_Polygon ps =
     (if ps = [] then Inr (Polygon [] [])
      else if length ps < 3 then Inl ValueError
      else if hd ps = last ps then Inr (Polygon ps [])
      else Inr (Polygon (ps @ [hd ps]) []))"

definition demo_union :: "int polygon list \<Rightarrow> error + int geometry" where
  "demo_union ps =
     (case ps of
        [] \<Rightarrow> Inr GOther
      | p # qs \<Rightarrow> if list_all (\<lambda>q. q = p) qs then Inr (GPolygon p) else Inr (GMultiPolygon (p # qs)))"

definition demo_polygonize :: "int point list list \<Rightarrow> error + int polygon list" where
  "demo_polygonize ls = Inr (map (\<lambda>l. Polygon l []) (filter (\<lambda>l. l \<noteq> [] \<and> hd l = last l) ls))"

definition demo :: "int prims" where
  "demo = \<lparr> py_float = demo_float, float_str = demo_str, shapely_Polygon = demo_Polygon,
            cascaded_union = demo_union, polygonize = demo_polygonize \<rparr>"

text \<open>The events of \<^verbatim>\<open><node id=i lat=la lon=lo />\<close>.\<close>

definition node_xml :: "string \<Rightarrow> string \<Rightarrow> string \<Rightarrow> event list" where
  "node_xml i la lo = [Start ''node'' [(''id'', i), (''lat'', la), (''lon'', lo)], End ''node'']"


section \<open>Auxiliary definitions for the proofs\<close>

text \<open>What the clean-up does to the tags of one way or relation.\<close>

definition clean_tags :: "tagdict \<Rightarrow> tagdict" where
  "clean_tags t =
     (case map_of t ''building:part'' of
        None \<Rightarrow> t
      | Some v \<Rightarrow>
          if map_of t ''building'' \<noteq> None then AList.delete ''building:part'' t
          else AList.delete ''building:part'' (AList.update ''building'' (lower v) t))"

definition cleaned :: "obj \<Rightarrow> obj" where
  "cleaned x = set_tags (clean_tags (tags x)) x"


definition ex_open_way :: "int state" where
  "ex_open_way = (init ''bid'')
     \<lparr>heap := [Node (PyStr ''1'') ''0'' ''0'' [], Node (PyStr ''2'') ''0'' ''1'' [],
               Node (PyStr ''3'') ''1'' ''1'' [], Way (PyStr ''7'') [] [0, 1, 2]]\<rparr>"

definition ex_dup :: "int state" where
  "ex_dup = (init ''bid'')
     \<lparr>heap := [Node (PyStr ''1'') ''0'' ''0'' [], Node (PyStr ''1'') ''5'' ''5'' [],
               Way (PyStr ''7'') [] [0], Way (PyStr ''7'') [] [1],
               Relation (PyStr ''9'') [] [(2, ''outer'')], Relation (PyStr ''9'') [] [(3, ''outer'')]],
      nodes_nodes := [(PyStr ''1'', 0)], nodes_by_lat_lon := [((0, 0), 0)],
      ways_ways := [(PyStr ''7'', 2)], relations_relations := [(PyStr ''9'', 4)]\<rparr>"

text \<open>The integer values of the keys of a dictionary of elements (\<open>None\<close> when \<^verbatim>\<open>int\<close> refuses one).\<close>

definition ids_in_use :: "(pyval \<times> ref) list \<Rightarrow> int list option" where
  "ids_in_use d = those (map (\<lambda>p. py_int_of (fst p)) d)"



text \<open>
  The counter \<^verbatim>\<open>_lowest_id\<close> of a collection is the smaller of -1 and the lowest
  identifier among the keys of its dictionary.
\<close>

definition lowest_id_ok :: "int \<Rightarrow> (pyval \<times> ref) list \<Rightarrow> bool" where
  "lowest_id_ok l d =
     (case ids_in_use d of None \<Rightarrow> False | Some ids \<Rightarrow> l = Min (insert (- 1) (set ids)))"


text \<open>
  Every entry of the dictionary \<^verbatim>\<open>nodes_by_lat_lon\<close> refers to a node of the store
  whose coordinates, read by \<^verbatim>\<open>float\<close>, are the key of the entry.
\<close>

definition index_sound :: "'f prims \<Rightarrow> 'f state \<Rightarrow> bool" where
  "index_sound P s =
     list_all (\<lambda>e. snd e < length (heap s) \<and>
        (case heap s ! snd e of
           Node i la lo t \<Rightarrow> py_float P la = Some (fst (fst e)) \<and> py_float P lo = Some (snd (fst e))
         | _ \<Rightarrow> False)) (nodes_by_lat_lon s)"





text \<open>The \<^verbatim>\<open>members\<close> of a relation, and no members for a node or a way.\<close>

definition members_of :: "obj \<Rightarrow> (ref \<times> string) list" where
  "members_of x = (case x of Relation _ _ ms \<Rightarrow> ms | _ \<Rightarrow> [])"

definition set_members :: "(ref \<times> string) list \<Rightarrow> obj \<Rightarrow> obj" where
  "set_members ms x = (case x of Relation i t _ \<Rightarrow> Relation i t ms | _ \<Rightarrow> x)"



text \<open>The events of a \<^verbatim>\<open><relation id=i>\<close> with its \<^verbatim>\<open><member type= ref= role= />\<close> and tags.\<close>

definition relation_xml ::
    "string \<Rightarrow> (string \<times> string \<times> string) list \<Rightarrow> (string \<times> string) list \<Rightarrow> event list" where
  "relation_xml i ms ts =
     Start ''relation'' [(''id'', i)]
     # concat (map (\<lambda>m. [Start ''member'' [(''ref'', fst (snd m)), (''type'', fst m), (''role'', snd (snd m))],
                           End ''member'']) ms)
     @ concat (map (\<lambda>kv. [Start ''tag'' [(''k'', fst kv), (''v'', snd kv)], End ''tag'']) ts)
     @ [End ''relation'']"

text \<open>
  \<open>same_except X s s'\<close>: from \<open>s\<close> to \<open>s'\<close> the store has only grown, the objects of
  \<open>s\<close> other than those at the references in \<open>X\<close> are as they were, and so are the
  buckets and the settings.
\<close>

definition same_except :: "ref set \<Rightarrow> 'f state \<Rightarrow> 'f state \<Rightarrow> bool" where
  "same_except X s s' =
     (length (heap s) \<le> length (heap s') \<and>
      (\<forall>q<length (heap s). q \<notin> X \<longrightarrow> heap s' ! q = heap s ! q) \<and>
      bldgs s' = bldgs s \<and> part_level_tags s' = part_level_tags s \<and>
      bldg_and_part_level_tags s' = bldg_and_part_level_tags s \<and>
      bldg_id_tag s' = bldg_id_tag s)"









section \<open>Basic facts\<close>

lemma rbind_Inl [simp]: "rbind (Inl e) f = Inl e"
  by (simp add: rbind_def)

lemma rbind_Inr [simp]: "rbind (Inr x) f = f x"
  by (simp add: rbind_def)


lemma tags_set_tags [simp]: "tags (set_tags t x) = t"
  by (cases x) (simp_all add: set_tags_def)

lemma set_tags_tags [simp]: "set_tags (tags x) x = x"
  by (cases x) (simp_all add: set_tags_def)

lemma set_tags_set_tags [simp]: "set_tags t (set_tags u x) = set_tags t x"
  by (cases x) (simp_all add: set_tags_def)

lemma set_tags_kind [simp]:
  "is_Node (set_tags t x) = is_Node x" "is_Way (set_tags t x) = is_Way x"
  "is_Relation (set_tags t x) = is_Relation x"
  by (cases x; simp add: set_tags_def)+

lemma set_tags_osm_id [simp]: "osm_id (set_tags t x) = osm_id x"
  by (cases x) (simp_all add: set_tags_def)

lemma map_of_delete_self [simp]: "map_of (AList.delete k t) k = None"
  by (simp add: AList.delete_conv)

section \<open>The clean-up of the \<^verbatim>\<open>building\<close> and \<^verbatim>\<open>building:part\<close> tags\<close>

lemma clean_tags_no_part [simp]: "map_of (clean_tags t) ''building:part'' = None"
  by (simp add: clean_tags_def split: option.splits)

lemma clean_tags_idem [simp]: "clean_tags (clean_tags t) = clean_tags t"
proof -
  have "map_of (clean_tags t) ''building:part'' = None" by simp
  then show ?thesis by (simp add: clean_tags_def[of "clean_tags t"])
qed


lemma cleaned_idem [simp]: "cleaned (cleaned x) = cleaned x"
  by (simp add: cleaned_def)

lemma cleaned_kind [simp]: "is_Node (cleaned x) = is_Node x"
  by (simp add: cleaned_def)





section \<open>Errors the code does not raise\<close>

lemma collect_node_point:
  assumes "list_all2 (\<lambda>n pt. \<exists>i la lo t. heap s ! n = Node i la lo t \<and>
             py_float P lo = Some (fst pt) \<and> py_float P la = Some (snd pt)) ns pts"
  shows "collect (node_point P s) ns = Inr pts"
  using assms by (induction rule: list_all2_induct) (auto simp: node_point_def)

text \<open>
  Claim C8, as the code has it. \<^verbatim>\<open>way_to_polygon\<close> makes no test that the way is
  closed: for every way, closed or not, whose nodes have coordinates that \<^verbatim>\<open>float\<close>
  accepts, the result is what the library's \<^verbatim>\<open>Polygon\<close> constructor returns for the
  \<^verbatim>\<open>(lon, lat)\<close> pairs of the nodes in order. No error of the code's own is raised.
\<close>

theorem way_to_polygon_any_ring:
  assumes "heap s ! way = Way i t ns"
    and "list_all2 (\<lambda>n pt. \<exists>i la lo t. heap s ! n = Node i la lo t \<and>
             py_float P lo = Some (fst pt) \<and> py_float P la = Some (snd pt)) ns pts"
  shows "way_to_polygon P s way = shapely_Polygon P pts"
  using assms(1) collect_node_point[OF assms(2)] by (simp add: way_to_polygon_def)

theorem way_to_polygon_any_ring_witness:
  "way_to_polygon demo ex_open_way 3 = shapely_Polygon demo [(0, 0), (1, 0), (1, 1)]"
proof -
  have f: "demo_float ''0'' = Some 0" "demo_float ''1'' = Some 1" by code_simp+
  have w: "heap ex_open_way ! 3 = Way (PyStr ''7'') [] [0, 1, 2]"
    by (simp add: ex_open_way_def)
  have ns: "list_all2 (\<lambda>n pt. \<exists>i la lo t. heap ex_open_way ! n = Node i la lo t \<and>
             py_float demo lo = Some (fst pt) \<and> py_float demo la = Some (snd pt))
          [0, 1, 2] [(0, 0), (1, 0), (1, 1)]"
    using f by (simp add: ex_open_way_def demo_def)
  show ?thesis by (rule way_to_polygon_any_ring[OF w ns])
qed

text \<open>
  The claim C8 as stated fails: a way over the three corners (0,0), (0,1), (1,1), whose
  first and last points differ, is turned into a polygon and no error is raised.
\<close>

theorem unclosed_way_counterexample:
  "way_to_polygon demo ex_open_way 3 = Inr (Polygon [(0, 0), (1, 0), (1, 1), (0, 0)] [])"
  by code_simp

text \<open>
  The claim C9 as stated fails: two nodes with the id 1 are read without any error, and
  the dictionary of nodes then maps the id to the second node.
\<close>

theorem duplicate_id_counterexample:
  "feed demo (node_xml ''1'' ''0'' ''0'' @ node_xml ''1'' ''5'' ''5'') (init ''bid'') =
     Inr \<lparr>heap = [Node (PyStr ''1'') ''0'' ''0'' [], Node (PyStr ''1'') ''5'' ''5'' []],
          nodes_nodes = [(PyStr ''1'', 1)], nodes_by_lat_lon = [((0, 0), 0), ((5, 5), 1)],
          nodes_lowest_id = - 1, ways_ways = [], ways_lowest_id = - 1,
          relations_relations = [], relations_lowest_id = - 1, bldgs = [],
          part_level_tags = [''height'', ''type''],
          bldg_and_part_level_tags = [''building''], bldg_id_tag = ''bid'',
          primary_osm_element = Some 1\<rparr>"
  by code_simp

lemma update_present_keys:
  "map_of d k = Some v \<Longrightarrow> map fst (AList.update k v' d) = map fst d"
  by (simp add: update_keys map_of_eq_None_iff[symmetric] del: map_of_eq_None_iff)

text \<open>
  Claim C9, as the code has it. When an element is added whose identifier is already a
  key of the collection of its kind, \<^verbatim>\<open>add\<close> raises no error: the store is unchanged,
  the dictionary keeps the same keys, and the identifier now refers to the element
  added last. This holds for \<^verbatim>\<open>Nodes.add\<close>, \<^verbatim>\<open>Ways.add\<close> and \<^verbatim>\<open>Relations.add\<close>.
\<close>

theorem add_same_id_overwrites:
  "(heap s ! r = Node i la lo t \<and> py_float P la = Some y \<and> py_float P lo = Some x \<and>
      py_int_of i = Some n \<and> map_of (nodes_nodes s) i = Some r0 \<longrightarrow>
      (\<exists>s'. Nodes_add P r s = Inr s' \<and> heap s' = heap s \<and> map_of (nodes_nodes s') i = Some r \<and>
            map fst (nodes_nodes s') = map fst (nodes_nodes s))) \<and>
   (py_int_of (osm_id (heap s ! r)) = Some n \<and> map_of (ways_ways s) (osm_id (heap s ! r)) = Some r0 \<longrightarrow>
      (\<exists>s'. Ways_add r s = Inr s' \<and> heap s' = heap s \<and>
            map_of (ways_ways s') (osm_id (heap s ! r)) = Some r \<and>
            map fst (ways_ways s') = map fst (ways_ways s))) \<and>
   (py_int_of (osm_id (heap s ! r)) = Some n \<and>
      map_of (relations_relations s) (osm_id (heap s ! r)) = Some r0 \<longrightarrow>
      (\<exists>s'. Relations_add r s = Inr s' \<and> heap s' = heap s \<and>
            map_of (relations_relations s') (osm_id (heap s ! r)) = Some r \<and>
            map fst (relations_relations s') = map fst (relations_relations s)))"
  by (auto simp: Nodes_add_def Ways_add_def Relations_add_def update_conv' update_present_keys)

theorem add_same_id_overwrites_witness:
  "(\<exists>s'. Nodes_add demo 1 ex_dup = Inr s' \<and> heap s' = heap ex_dup \<and> nodes_nodes s' = [(PyStr ''1'', 1)]) \<and>
   (\<exists>s'. Ways_add 3 ex_dup = Inr s' \<and> heap s' = heap ex_dup \<and> ways_ways s' = [(PyStr ''7'', 3)]) \<and>
   (\<exists>s'. Relations_add 5 ex_dup = Inr s' \<and> heap s' = heap ex_dup \<and> relations_relations s' = [(PyStr ''9'', 5)])"
proof -
  have f: "demo_float ''5'' = Some 5" "py_int ''1'' = Some 1" "py_int ''7'' = Some 7" "py_int ''9'' = Some 9"
    by code_simp+
  have n: "heap ex_dup ! 1 = Node (PyStr ''1'') ''5'' ''5'' [] \<and> py_float demo ''5'' = Some 5 \<and>
      py_float demo ''5'' = Some 5 \<and> py_int_of (PyStr ''1'') = Some 1 \<and>
      map_of (nodes_nodes ex_dup) (PyStr ''1'') = Some 0"
    using f by (simp add: ex_dup_def init_def demo_def py_int_of_def)
  have w: "py_int_of (osm_id (heap ex_dup ! 3)) = Some 7 \<and>
      map_of (ways_ways ex_dup) (osm_id (heap ex_dup ! 3)) = Some 2"
    using f by (simp add: ex_dup_def init_def py_int_of_def)
  have r: "py_int_of (osm_id (heap ex_dup ! 5)) = Some 9 \<and>
      map_of (relations_relations ex_dup) (osm_id (heap ex_dup ! 5)) = Some 4"
    using f by (simp add: ex_dup_def init_def py_int_of_def)
  from add_same_id_overwrites[of ex_dup 1 "PyStr ''1''" "''5''" "''5''" "[]" demo 5 5 1 0] n
  obtain s1 where s1: "Nodes_add demo 1 ex_dup = Inr s1" "heap s1 = heap ex_dup"
      "map_of (nodes_nodes s1) (PyStr ''1'') = Some 1" "map fst (nodes_nodes s1) = map fst (nodes_nodes ex_dup)"
    by blast
  from add_same_id_overwrites[of ex_dup 3 _ _ _ _ _ _ _ 7 2] w
  obtain s2 where s2: "Ways_add 3 ex_dup = Inr s2" "heap s2 = heap ex_dup"
      "map_of (ways_ways s2) (osm_id (heap ex_dup ! 3)) = Some 3" "map fst (ways_ways s2) = map fst (ways_ways ex_dup)"
    by blast
  from add_same_id_overwrites[of ex_dup 5 _ _ _ _ _ _ _ 9 4] r
  obtain s3 where s3: "Relations_add 5 ex_dup = Inr s3" "heap s3 = heap ex_dup"
      "map_of (relations_relations s3) (osm_id (heap ex_dup ! 5)) = Some 5"
      "map fst (relations_relations s3) = map fst (relations_relations ex_dup)"
    by blast
  have one: "map fst d = [k] \<Longrightarrow> map_of d k = Some v \<Longrightarrow> d = [(k, v)]" for d :: "(pyval \<times> nat) list" and k v
    by (cases d) auto
  have "nodes_nodes s1 = [(PyStr ''1'', 1)]"
    using s1(3,4) by (intro one) (simp_all add: ex_dup_def init_def)
  moreover have "ways_ways s2 = [(PyStr ''7'', 3)]"
    using s2(3,4) by (intro one) (simp_all add: ex_dup_def init_def)
  moreover have "relations_relations s3 = [(PyStr ''9'', 5)]"
    using s3(3,4) by (intro one) (simp_all add: ex_dup_def init_def)
  ultimately show ?thesis using s1(1,2) s2(1,2) s3(1,2) by blast
qed

section \<open>\<^verbatim>\<open>int\<close> reads back what \<^verbatim>\<open>str\<close> prints\<close>

lemma of_char_digit: "d < 10 \<Longrightarrow> (of_char (char_of (48 + d)) :: nat) = 48 + d"
  by simp

lemma digit_of_digit [simp]: "d < 10 \<Longrightarrow> digit_of (char_of (48 + d)) = Some d"
  by (simp add: digit_of_def)

lemma digits_val_snoc:
  "digits_val acc (xs @ [c]) =
     (case digits_val acc xs of None \<Rightarrow> None
      | Some a \<Rightarrow> (case digit_of c of None \<Rightarrow> None | Some d \<Rightarrow> Some (10 * a + d)))"
  by (induction xs arbitrary: acc) (auto split: option.splits)

lemma digits_val_nat_digits: "digits_val 0 (nat_digits n) = Some n"
proof (induction n rule: nat_digits.induct)
  case (1 n)
  show ?case
  proof (cases "n < 10")
    case True
    then show ?thesis by (subst nat_digits.simps) simp
  next
    case False
    with 1 have "digits_val 0 (nat_digits (n div 10)) = Some (n div 10)" by simp
    with False show ?thesis
      by (subst nat_digits.simps) (simp add: digits_val_snoc)
  qed
qed

lemma nat_digits_digits: "c \<in> set (nat_digits n) \<Longrightarrow> digit_of c \<noteq> None"
proof (induction n rule: nat_digits.induct)
  case (1 n)
  show ?case
  proof (cases "n < 10")
    case True
    with 1(2) show ?thesis by (subst (asm) nat_digits.simps) auto
  next
    case False
    with 1 show ?thesis by (subst (asm) (2) nat_digits.simps) auto
  qed
qed

lemma nat_digits_nonempty [simp]: "nat_digits n \<noteq> []"
  by (subst nat_digits.simps) simp

lemma digit_not_space: "digit_of c \<noteq> None \<Longrightarrow> \<not> is_space c"
  by (auto simp: digit_of_def is_space_def split: if_splits)

lemma strip_no_space:
  assumes "s \<noteq> []" "\<not> is_space (hd s)" "\<not> is_space (last s)"
  shows "strip s = s"
proof -
  from assms have "dropWhile is_space s = s" by (cases s) auto
  moreover from assms have "dropWhile is_space (rev s) = rev s"
    by (cases "rev s") (auto simp: last_rev[symmetric] hd_rev)
  ultimately show ?thesis by (simp add: strip_def)
qed

lemma nat_digits_hd: "\<not> is_space (hd (nat_digits n))"
  by (rule digit_not_space, rule nat_digits_digits[of _ n]) simp

lemma nat_digits_last: "\<not> is_space (last (nat_digits n))"
  by (rule digit_not_space, rule nat_digits_digits[of _ n]) simp

lemma strip_nat_digits [simp]: "strip (nat_digits n) = nat_digits n"
  by (rule strip_no_space) (simp_all add: nat_digits_hd nat_digits_last)

lemma strip_minus_nat_digits [simp]: "strip (CHR ''-'' # nat_digits n) = CHR ''-'' # nat_digits n"
proof (rule strip_no_space)
  show "\<not> is_space (hd (CHR ''-'' # nat_digits n))" by (simp add: is_space_def)
  show "\<not> is_space (last (CHR ''-'' # nat_digits n))" by (simp add: nat_digits_last)
qed simp

lemma py_int_py_str [simp]: "py_int (py_str i) = Some i"
proof (cases "i < 0")
  case True
  then show ?thesis by (simp add: py_int_def py_str_def digits_val_nat_digits)
next
  case False
  obtain c cs where cs: "nat_digits (nat i) = c # cs" by (cases "nat_digits (nat i)") auto
  then have "c \<in> set (nat_digits (nat i))" by simp
  then have "digit_of c \<noteq> None" by (rule nat_digits_digits)
  then have c: "c \<noteq> CHR ''-''" "c \<noteq> CHR ''+''" by (auto simp: digit_of_def)
  have d: "digits_val 0 (c # cs) = Some (nat i)"
    using digits_val_nat_digits[of "nat i"] cs by simp
  have "strip (c # cs) = c # cs" using strip_nat_digits[of "nat i"] cs by simp
  then have "py_int (c # cs) = map_option int (digits_val 0 (c # cs))"
    using c by (simp add: py_int_def del: digits_val.simps)
  then show ?thesis using False cs d by (simp add: py_str_def del: digits_val.simps)
qed

lemma py_int_of_simps [simp]:
  "py_int_of (PyInt i) = Some i" "py_int_of (PyStr (py_str i)) = Some i"
  by (simp_all add: py_int_of_def)

section \<open>The allocation of identifiers\<close>



lemma ids_in_use_Cons:
  "ids_in_use (p # d) = Some ids \<longleftrightarrow>
     (\<exists>i js. py_int_of (fst p) = Some i \<and> ids_in_use d = Some js \<and> ids = i # js)"
  by (auto simp: ids_in_use_def split: option.splits)












lemma ids_in_use_update:
  assumes "ids_in_use d = Some ids" "py_int_of k = Some n"
  shows "\<exists>ids'. ids_in_use (AList.update k r d) = Some ids' \<and> set ids' = insert n (set ids)"
  using assms
proof (induction d arbitrary: ids)
  case Nil
  then show ?case by (simp add: ids_in_use_def)
next
  case (Cons p d)
  from Cons.prems(1) obtain i js where p: "py_int_of (fst p) = Some i" "ids_in_use d = Some js" "ids = i # js"
    by (auto simp: ids_in_use_Cons)
  show ?case
  proof (cases "fst p = k")
    case True
    with p Cons.prems(2) have "ids_in_use (AList.update k r (p # d)) = Some ids"
      by (cases p) (simp add: ids_in_use_Cons)
    moreover have "set ids = insert n (set ids)" using True p Cons.prems(2) by auto
    ultimately show ?thesis by blast
  next
    case False
    from Cons.IH[OF p(2) Cons.prems(2)] obtain js' where
      js': "ids_in_use (AList.update k r d) = Some js'" "set js' = insert n (set js)" by blast
    with False p have "ids_in_use (AList.update k r (p # d)) = Some (i # js')"
      by (cases p) (simp add: ids_in_use_Cons)
    moreover have "set (i # js') = insert n (set ids)" using js'(2) p(3) by auto
    ultimately show ?thesis by blast
  qed
qed

lemma Min_insert_min:
  assumes "finite (A::int set)"
  shows "Min (insert (- 1) (insert n A)) = (if n < Min (insert (- 1) A) then n else Min (insert (- 1) A))"
proof -
  have "Min (insert n (insert (- 1) A)) = min n (Min (insert (- 1) A))"
    using assms by (intro Min_insert) auto
  moreover have "insert (- 1) (insert n A) = insert n (insert (- 1) A)" by auto
  ultimately show ?thesis by (simp only: min_def) auto
qed

lemma lowest_id_ok_init: "lowest_id_ok (- 1) []"
  by (simp add: lowest_id_ok_def ids_in_use_def)

lemma lowest_id_ok_add:
  assumes "lowest_id_ok l d" "py_int_of k = Some n"
  shows "lowest_id_ok (if n < l then n else l) (AList.update k r d)"
proof -
  from assms(1) obtain ids where ids: "ids_in_use d = Some ids" "l = Min (insert (- 1) (set ids))"
    by (auto simp: lowest_id_ok_def split: option.splits)
  from ids_in_use_update[OF ids(1) assms(2)] obtain ids' where
    ids': "ids_in_use (AList.update k r d) = Some ids'" "set ids' = insert n (set ids)" by blast
  show ?thesis using ids' ids(2) Min_insert_min[of "set ids" n] by (simp add: lowest_id_ok_def)
qed

lemma add_keeps_lowest_id_ok:
  "lowest_id_ok (nodes_lowest_id s) (nodes_nodes s) \<Longrightarrow> Nodes_add P r s = Inr s' \<Longrightarrow>
     lowest_id_ok (nodes_lowest_id s') (nodes_nodes s')"
  "lowest_id_ok (ways_lowest_id s) (ways_ways s) \<Longrightarrow> Ways_add r s = Inr s' \<Longrightarrow>
     lowest_id_ok (ways_lowest_id s') (ways_ways s')"
  "lowest_id_ok (relations_lowest_id s) (relations_relations s) \<Longrightarrow> Relations_add r s = Inr s' \<Longrightarrow>
     lowest_id_ok (relations_lowest_id s') (relations_relations s')"
  by (auto simp: Nodes_add_def Ways_add_def Relations_add_def Let_def lowest_id_ok_add
        split: obj.splits option.splits)




section \<open>Nodes are shared by coordinates\<close>






lemma set_update_subset: "set (AList.update k v al) \<subseteq> insert (k, v) (set al)"
  by (induction al) auto

lemma index_sound_Nodes_add:
  assumes "index_sound P s" "Nodes_add P r s = Inr s'" "r < length (heap s)"
  shows "index_sound P s'"
proof -
  from assms(2) obtain i la lo t y x n where n: "heap s ! r = Node i la lo t"
    "py_float P la = Some y" "py_float P lo = Some x" "py_int_of i = Some n"
    "s' = s\<lparr>nodes_nodes := AList.update i r (nodes_nodes s),
            nodes_by_lat_lon := AList.update (y, x) r (nodes_by_lat_lon s),
            nodes_lowest_id := (if n < nodes_lowest_id s then n else nodes_lowest_id s)\<rparr>"
    by (auto simp: Nodes_add_def split: obj.splits option.splits)
  have "set (AList.update (y, x) r (nodes_by_lat_lon s)) \<subseteq> insert ((y, x), r) (set (nodes_by_lat_lon s))"
    by (rule set_update_subset)
  with assms(1,3) n show ?thesis
    by (auto simp: index_sound_def list_all_iff)
qed


section \<open>The tags of the parts and of the outline\<close>

lemma add_tag_eq:
  "add_tag r k v s = s\<lparr>heap := (heap s)[r := set_tags (AList.update k v (tags (heap s ! r))) (heap s ! r)]\<rparr>"
  by (simp add: add_tag_def)

lemma state_heap_same [simp]: "s\<lparr>heap := heap s\<rparr> = s"
  by simp











lemma members_of_set_tags [simp]: "members_of (set_tags t x) = members_of x"
  by (cases x) (simp_all add: members_of_def set_tags_def)










section \<open>What the creation of the outline leaves untouched\<close>






lemma same_except_update: "same_except {r} s (s\<lparr>heap := (heap s)[r := x]\<rparr>)"
  by (simp add: same_except_def)

lemma same_except_add_tag: "same_except {r} s (add_tag r k v s)"
  by (simp add: add_tag_eq same_except_update)










lemma members_of_set_members [simp]: "is_Relation x \<Longrightarrow> members_of (set_members ms x) = ms"
  by (cases x) (simp_all add: members_of_def set_members_def)

lemma set_members_twice [simp]: "set_members a (set_members b x) = set_members a x"
  by (cases x) (simp_all add: set_members_def)

lemma is_Relation_set_members [simp]: "is_Relation (set_members ms x) = is_Relation x"
  by (cases x) (simp_all add: set_members_def)

lemma set_members_same [simp]: "set_members (members_of x) x = x"
  by (cases x) (simp_all add: members_of_def set_members_def)

lemma tags_set_members [simp]: "tags (set_members ms x) = tags x"
  by (cases x) (simp_all add: set_members_def)

lemma osm_id_set_members [simp]: "osm_id (set_members ms x) = osm_id x"
  by (cases x) (simp_all add: set_members_def)























section \<open>One building\<close>





subsection \<open>The stand-in library reads back what it prints\<close>

lemma py_str_nonempty [simp]: "py_str x \<noteq> []"
  by (simp add: py_str_def)

lemma py_str_hd: "\<not> is_space (hd (py_str x))"
proof (cases "x < 0")
  case True
  then show ?thesis by (simp add: py_str_def is_space_def)
next
  case False
  then show ?thesis by (simp add: py_str_def nat_digits_hd)
qed

lemma demo_float_str [simp]: "demo_float (demo_str x) = Some x"
proof -
  have "strip (py_str x @ ''.0'') = py_str x @ ''.0''"
  proof (rule strip_no_space)
    show "\<not> is_space (hd (py_str x @ ''.0''))" by (simp add: py_str_hd)
    show "\<not> is_space (last (py_str x @ ''.0''))" by (simp add: is_space_def)
  qed simp
  then show ?thesis by (simp add: demo_float_def demo_str_def Let_def)
qed



section \<open>The loop over the buildings\<close>















end
